theory Spec2Isabelle
  imports Complex_Main
begin

section \<open>The realtime client of Cuby (cuby/realtime\_client.py)\<close>

text \<open>
  A shallow embedding of \<^verbatim>\<open>RealtimeClient\<close>.  The object's attributes are the fields of
  the record \<open>client\<close>; every method returns the updated client together with the list
  of effects it performed, in program order.  Whatever the method receives from outside
  (the result of a blocking call, a clock reading, what another thread did meanwhile)
  is an explicit argument.

  Python floats are modelled as reals.  The client only compares, stores and subtracts
  them; rounding of the subtraction and NaN are not modelled.
\<close>

subsection \<open>Data\<close>

type_synonym bytes = "nat list"

datatype stream = RawInputStream | RawOutputStream

datatype websocket = WebSocket

text \<open>
  The exceptions \<^verbatim>\<open>_reconnect_loop\<close> tells apart: \<^verbatim>\<open>ConnectionClosedError\<close> and any other
  \<^verbatim>\<open>Exception\<close>, each with its message.
\<close>

datatype exn = ConnectionClosedError string | OtherException string

text \<open>\<^verbatim>\<open>str(e)\<close>, as the notifications print an exception.\<close>

fun message :: "exn \<Rightarrow> string" where
  "message (ConnectionClosedError m) = m"
| "message (OtherException m) = m"

record client =
  model :: string
  instructions :: string
  voice :: string
  chunk :: nat
  vad_threshold :: real
  vad_silence_ms :: int
  thread :: "nat option"
  loop :: bool
  stop_flag :: bool
  mic_enabled :: bool
  speaker_enabled :: bool
  connected :: bool
  in_stream :: "stream option"
  out_stream :: "stream option"
  current_ws :: "websocket option"
  assistant_speaking :: bool
  last_assistant_audio_time :: real
  assistant_cooldown_sec :: real
  assistant_text_buffer :: string
  assistant_audio_buffer :: string
  on_event_text :: bool
  on_server_error :: bool
  on_status :: bool
  on_ws_state :: bool
  on_audio_level :: bool
  on_user_transcript :: bool

text \<open>
  \<open>thread\<close> holds the identifier of the \<^verbatim>\<open>threading.Thread\<close> object, \<open>loop\<close> says whether
  \<^verbatim>\<open>_loop\<close> is set, and each \<open>on_...\<close> field says whether that callback is assigned
  (the source tests exactly this before every call).  A callback is taken to return
  normally.
\<close>

text \<open>The texts handed to \<^verbatim>\<open>on_status\<close> and \<^verbatim>\<open>on_server_error\<close>, by their arguments.\<close>

datatype status_note =
    VadUpdated real int
  | Connecting string
  | AudioClosedInitError
  | ConnectedNote
  | AudioStreamsClosed
  | SessionUpdateSent real int
  | MicSenderStarted
  | ReceiverStarted
  | WebSocketClosed string

datatype error_note =
    UnexpectedError string
  | FailedToOpenAudio string
  | InputStreamError string
  | SenderError string
  | ReceiverError string
  | ServerEvent "string option"

text \<open>
  Outbound frames.  The JSON and base64 wire encoding is left out: a frame carries the
  values it is built from.
\<close>

datatype outbound =
    SessionUpdate string string string real int
  | InputAudioBufferAppend bytes

text \<open>
  \<open>WsSend m\<close> is the call \<^verbatim>\<open>ws.send(m)\<close> (which may still raise), \<open>WsClose\<close> is leaving the
  \<^verbatim>\<open>async with ws_connect(...)\<close> block, whose exit closes the connection.  \<open>Gather\<close> is
  \<^verbatim>\<open>await asyncio.gather(sender, receiver)\<close>: the two pipelines run concurrently, and
  their own effects are described by \<open>audio_sender\<close> and \<open>audio_receiver\<close> below.
  \<open>Sleep n\<close> is \<^verbatim>\<open>asyncio.sleep\<close> for \<open>n\<close> milliseconds; \<open>Sleep 0\<close> only yields to the
  event loop.
\<close>

datatype effect =
    Status status_note
  | ServerError error_note
  | EventText string
  | UserTranscript string
  | WsState bool
  | AudioLevel real
  | WsConnect
  | WsSend outbound
  | WsClose
  | StreamOpen stream
  | StreamStart stream
  | StreamStop stream
  | StreamClose stream
  | StreamWrite bytes
  | ScheduleSessionUpdate
  | Gather
  | Sleep nat

definition new_client :: "real \<Rightarrow> int \<Rightarrow> client" where
  "new_client threshold silence_ms =
     \<lparr> model = ''gpt-4o-realtime-preview'',
       instructions = ''You are an intelligent, fast voice assistant named Cuby.'',
       voice = ''alloy'',
       chunk = 1024,
       vad_threshold = threshold,
       vad_silence_ms = silence_ms,
       thread = None,
       loop = False,
       stop_flag = False,
       mic_enabled = True,
       speaker_enabled = True,
       connected = False,
       in_stream = None,
       out_stream = None,
       current_ws = None,
       assistant_speaking = False,
       last_assistant_audio_time = 0,
       assistant_cooldown_sec = 8 / 10,
       assistant_text_buffer = [],
       assistant_audio_buffer = [],
       on_event_text = False,
       on_server_error = False,
       on_status = False,
       on_ws_state = False,
       on_audio_level = False,
       on_user_transcript = False \<rparr>"

text \<open>The window assigns the four callbacks it listens to (window.py, lines 348 to 351).\<close>

definition window_client :: client where
  "window_client =
     (new_client (95 / 100) 1600)
       \<lparr> on_event_text := True, on_server_error := True,
         on_status := True, on_ws_state := True \<rparr>"

definition notify_status :: "client \<Rightarrow> status_note \<Rightarrow> effect list" where
  "notify_status c s = (if on_status c then [Status s] else [])"

definition notify_error :: "client \<Rightarrow> error_note \<Rightarrow> effect list" where
  "notify_error c e = (if on_server_error c then [ServerError e] else [])"

subsection \<open>set\_vad\_params\<close>

definition live_session :: "client \<Rightarrow> bool" where
  "live_session c = (loop c \<and> connected c \<and> current_ws c \<noteq> None)"

definition set_vad_params :: "real option \<Rightarrow> int option \<Rightarrow> client \<Rightarrow> client \<times> effect list" where
  "set_vad_params threshold silence_ms c =
     (let c1 = (case threshold of
                  None \<Rightarrow> c
                | Some t \<Rightarrow> c\<lparr>vad_threshold := max 0 (min 1 t)\<rparr>);
          c2 = (case silence_ms of
                  None \<Rightarrow> c1
                | Some n \<Rightarrow> c1\<lparr>vad_silence_ms := max 100 n\<rparr>)
      in (c2,
          notify_status c2 (VadUpdated (vad_threshold c2) (vad_silence_ms c2))
          @ (if live_session c2 then [ScheduleSessionUpdate] else [])))"

text \<open>The two clamps as the specification words them.\<close>

definition clamp_unit :: "real \<Rightarrow> real" where
  "clamp_unit x = (if x < 0 then 0 else if 1 < x then 1 else x)"

definition at_least_100 :: "int \<Rightarrow> int" where
  "at_least_100 n = (if n < 100 then 100 else n)"

subsection \<open>The send pipeline: \_audio\_sender\<close>

text \<open>
  What one iteration of the loop receives from outside: the result of the blocking
  \<^verbatim>\<open>_in_stream.read\<close> (\<open>Inl\<close> the exception it raises), the clock reading, the result of
  \<^verbatim>\<open>ws.send\<close> (\<open>Some\<close> the exception it raises), and the value of the stop flag inside
  either exception handler.  The client passed to an iteration holds the attributes as
  the iteration reads them.
\<close>

record sender_env =
  mic_read :: "exn + bytes"
  stop_on_read_error :: bool
  monotonic :: real
  ws_send :: "exn option"
  stop_on_send_error :: bool

text \<open>
  How an iteration leaves the loop body: \<open>Continue\<close> goes round again, \<open>Break\<close> leaves the
  loop, \<open>Raise\<close> lets an exception escape the coroutine.
\<close>

datatype loop_ctl = Continue | Break | Raise

definition sender_iteration :: "client \<Rightarrow> sender_env \<Rightarrow> loop_ctl \<times> effect list" where
  "sender_iteration c env =
     (if stop_flag c then (Break, [])
      else if in_stream c = None then (Break, [])
      else case mic_read env of
          Inl e \<Rightarrow>
            if stop_on_read_error env then (Break, [])
            else (Break, notify_error c (InputStreamError (message e)))
        | Inr data \<Rightarrow>
            if \<not> mic_enabled c then (Continue, [Sleep 0])
            else if assistant_speaking c then (Continue, [Sleep 0])
            else if 0 < last_assistant_audio_time c
                    \<and> monotonic env - last_assistant_audio_time c < assistant_cooldown_sec c
              then (Continue, [Sleep 0])
            else (case ws_send env of
                    Some e \<Rightarrow>
                      if stop_on_send_error env
                      then (Break, [WsSend (InputAudioBufferAppend data)])
                      else (Break, WsSend (InputAudioBufferAppend data)
                                     # notify_error c (SenderError (message e)))
                  | None \<Rightarrow> (Continue, [WsSend (InputAudioBufferAppend data), Sleep 0])))"

text \<open>
  The loop over a script of iterations.  The result \<open>Continue\<close> means that the script
  ended with the loop still running.
\<close>

fun sender_loop :: "(client \<times> sender_env) list \<Rightarrow> loop_ctl \<times> effect list" where
  "sender_loop [] = (Continue, [])"
| "sender_loop ((c, env) # rest) =
     (case sender_iteration c env of
        (Continue, es) \<Rightarrow> (case sender_loop rest of (ctl, es') \<Rightarrow> (ctl, es @ es'))
      | (ctl, es) \<Rightarrow> (ctl, es))"

definition audio_sender :: "client \<Rightarrow> (client \<times> sender_env) list \<Rightarrow> loop_ctl \<times> effect list" where
  "audio_sender c0 script =
     (case sender_loop script of (ctl, es) \<Rightarrow> (ctl, notify_status c0 MicSenderStarted @ es))"

text \<open>The frames of the \<^verbatim>\<open>input_audio_buffer.append\<close> events among a list of effects.\<close>

fun appended :: "effect list \<Rightarrow> bytes list" where
  "appended [] = []"
| "appended (WsSend (InputAudioBufferAppend d) # es) = d # appended es"
| "appended (e # es) = appended es"

subsection \<open>The receive pipeline: \_audio\_receiver\<close>

text \<open>
  An inbound message after \<^verbatim>\<open>json.loads\<close>, by its \<^verbatim>\<open>type\<close>, with the one field the
  receiver reads from it (\<open>None\<close> when the field is missing): \<^verbatim>\<open>delta\<close>, \<^verbatim>\<open>transcript\<close>,
  \<^verbatim>\<open>text\<close>, or the \<^verbatim>\<open>code\<close> of \<^verbatim>\<open>error\<close>.
\<close>

datatype event =
    ResponseAudioDelta "string option"
  | ResponseAudioDone
  | ResponseAudioTranscriptDelta "string option"
  | ResponseAudioTranscriptDone "string option"
  | ResponseTextDelta "string option"
  | ResponseTextDone "string option"
  | InputAudioTranscriptionCompleted "string option"
  | ErrorEvent "string option"
  | OtherEvent string

text \<open>
  What one iteration receives from outside: the result of \<^verbatim>\<open>ws.recv\<close> (\<open>Inl\<close> the
  exception it raises, such as \<^verbatim>\<open>ConnectionClosedError\<close> when the peer has closed; a message that
  \<^verbatim>\<open>json.loads\<close> does not turn into an object is not modelled), the library
  functions \<^verbatim>\<open>base64.b64decode\<close> (\<open>None\<close> when it raises) and the root mean square of
  the samples over 32768 (\<open>None\<close> when the chunk holds no sample or numpy raises, which
  the source swallows), the clock reading, whether
  \<^verbatim>\<open>_out_stream.write\<close> raises, and the stop flag inside either exception handler.
\<close>

record receiver_env =
  ws_recv :: "exn + event"
  stop_on_recv_error :: bool
  b64decode :: "string \<Rightarrow> bytes option"
  clock :: real
  write_fails :: bool
  stop_on_write_error :: bool
  rms_level :: "bytes \<Rightarrow> real option"

text \<open>Python's \<^verbatim>\<open>v or d\<close> on an optional string: \<open>d\<close> when \<open>v\<close> is missing or empty.\<close>

definition py_or :: "string option \<Rightarrow> string \<Rightarrow> string" where
  "py_or v d = (case v of None \<Rightarrow> d | Some s \<Rightarrow> if s = [] then d else s)"

definition notify_text :: "client \<Rightarrow> string \<Rightarrow> effect list" where
  "notify_text c s = (if s \<noteq> [] \<and> on_event_text c then [EventText s] else [])"

fun handle_event :: "client \<Rightarrow> receiver_env \<Rightarrow> event \<Rightarrow> loop_ctl \<times> client \<times> effect list" where
  "handle_event c env (ResponseAudioDelta d) =
     (if \<not> speaker_enabled c then (Continue, c, [])
      else if py_or d [] = [] then (Continue, c, [])
      else case b64decode env (py_or d []) of
          None \<Rightarrow> (Raise, c, [])
        | Some raw \<Rightarrow>
            (let c' = c\<lparr>assistant_speaking := True, last_assistant_audio_time := clock env\<rparr>;
                 written = (if out_stream c' = None then [] else [StreamWrite raw])
             in if out_stream c' \<noteq> None \<and> write_fails env \<and> stop_on_write_error env
                then (Break, c', written)
                else (Continue, c',
                      written @ (if on_audio_level c'
                                 then (case rms_level env raw of
                                         None \<Rightarrow> []
                                       | Some rms \<Rightarrow> [AudioLevel (min 1 (rms * 4))])
                                 else []))))"
| "handle_event c env ResponseAudioDone = (Continue, c\<lparr>assistant_speaking := False\<rparr>, [])"
| "handle_event c env (ResponseAudioTranscriptDelta d) =
     (Continue, c\<lparr>assistant_audio_buffer := assistant_audio_buffer c @ py_or d []\<rparr>, [])"
| "handle_event c env (ResponseAudioTranscriptDone t) =
     (Continue, c\<lparr>assistant_audio_buffer := [], assistant_text_buffer := []\<rparr>,
      if assistant_text_buffer c = [] then notify_text c (py_or t (assistant_audio_buffer c))
      else [])"
| "handle_event c env (ResponseTextDelta d) =
     (Continue, c\<lparr>assistant_text_buffer := assistant_text_buffer c @ py_or d []\<rparr>, [])"
| "handle_event c env (ResponseTextDone t) =
     (Continue, c\<lparr>assistant_text_buffer := [], assistant_audio_buffer := []\<rparr>,
      notify_text c (py_or t (assistant_text_buffer c)))"
| "handle_event c env (InputAudioTranscriptionCompleted t) =
     (Continue, c,
      if py_or t [] \<noteq> [] \<and> on_user_transcript c then [UserTranscript (py_or t [])] else [])"
| "handle_event c env (ErrorEvent code) =
     (if code = Some ''conversation_already_has_active_response'' then (Continue, c, [])
      else (Continue, c, notify_error c (ServerEvent code)))"
| "handle_event c env (OtherEvent ty) = (Continue, c, [])"

definition receiver_iteration :: "client \<Rightarrow> receiver_env \<Rightarrow> loop_ctl \<times> client \<times> effect list" where
  "receiver_iteration c env =
     (if stop_flag c then (Break, c, [])
      else case ws_recv env of
          Inl e \<Rightarrow>
            if stop_on_recv_error env then (Break, c, [])
            else (Break, c, notify_error c (ReceiverError (message e)))
        | Inr msg \<Rightarrow> handle_event c env msg)"

fun receiver_loop :: "client \<Rightarrow> receiver_env list \<Rightarrow> loop_ctl \<times> client \<times> effect list" where
  "receiver_loop c [] = (Continue, c, [])"
| "receiver_loop c (env # rest) =
     (case receiver_iteration c env of
        (Continue, c', es) \<Rightarrow>
          (case receiver_loop c' rest of (ctl, c'', es') \<Rightarrow> (ctl, c'', es @ es'))
      | (ctl, c', es) \<Rightarrow> (ctl, c', es))"

definition audio_receiver :: "client \<Rightarrow> receiver_env list \<Rightarrow> loop_ctl \<times> client \<times> effect list" where
  "audio_receiver c envs =
     (case receiver_loop c envs of
        (ctl, c', es) \<Rightarrow> (ctl, c', notify_status c ReceiverStarted @ es))"

text \<open>The completed-message and server-error notifications among a list of effects.\<close>

fun event_texts :: "effect list \<Rightarrow> string list" where
  "event_texts [] = []"
| "event_texts (EventText s # es) = s # event_texts es"
| "event_texts (e # es) = event_texts es"

fun server_errors :: "effect list \<Rightarrow> error_note list" where
  "server_errors [] = []"
| "server_errors (ServerError e # es) = e # server_errors es"
| "server_errors (e # es) = server_errors es"

subsection \<open>The two pipelines together\<close>


subsection \<open>One session: \_run\_session\<close>

text \<open>
  What a session receives from outside: how far the opening of the audio streams gets,
  whether \<^verbatim>\<open>ws_connect\<close> raises, whether the \<^verbatim>\<open>ws.send\<close> of \<^verbatim>\<open>_send_session_update\<close>
  raises, and what the two pipelines leave behind: the client as it is when
  \<^verbatim>\<open>asyncio.gather\<close> returns (the receiver and the control thread write to it meanwhile)
  and the exception \<^verbatim>\<open>gather\<close> raises, if any.
\<close>

datatype audio_open =
    AudioOpened
  | InputCreateFails string
  | OutputCreateFails string
  | InputStartFails string
  | OutputStartFails string

record session_env =
  audio_open_result :: audio_open
  connect_result :: "exn option"
  update_result :: "exn option"
  pipelines :: "client \<Rightarrow> client \<times> exn option"

text \<open>The assignments of lines 374 to 378.\<close>

definition session_reset :: "client \<Rightarrow> client" where
  "session_reset c =
     c\<lparr> current_ws := None, assistant_speaking := False, assistant_text_buffer := [],
        assistant_audio_buffer := [], last_assistant_audio_time := 0 \<rparr>"

text \<open>
  The \<^verbatim>\<open>try\<close> block of lines 381 to 395: the four statements in order, up to the first
  that raises (\<open>Some\<close> its message).
\<close>

definition open_audio :: "audio_open \<Rightarrow> client \<Rightarrow> client \<times> effect list \<times> string option" where
  "open_audio r c =
     (case r of
        InputCreateFails e \<Rightarrow> (c, [], Some e)
      | OutputCreateFails e \<Rightarrow>
          (c\<lparr>in_stream := Some RawInputStream\<rparr>, [StreamOpen RawInputStream], Some e)
      | InputStartFails e \<Rightarrow>
          (c\<lparr>in_stream := Some RawInputStream, out_stream := Some RawOutputStream\<rparr>,
           [StreamOpen RawInputStream, StreamOpen RawOutputStream], Some e)
      | OutputStartFails e \<Rightarrow>
          (c\<lparr>in_stream := Some RawInputStream, out_stream := Some RawOutputStream\<rparr>,
           [StreamOpen RawInputStream, StreamOpen RawOutputStream,
            StreamStart RawInputStream], Some e)
      | AudioOpened \<Rightarrow>
          (c\<lparr>in_stream := Some RawInputStream, out_stream := Some RawOutputStream\<rparr>,
           [StreamOpen RawInputStream, StreamOpen RawOutputStream,
            StreamStart RawInputStream, StreamStart RawOutputStream], None))"

text \<open>
  Releasing one stream: \<^verbatim>\<open>stop()\<close> and \<^verbatim>\<open>close()\<close> are both called when the attribute is
  set; the source swallows whatever either raises.
\<close>

definition release_stream :: "stream option \<Rightarrow> effect list" where
  "release_stream s = (case s of None \<Rightarrow> [] | Some x \<Rightarrow> [StreamStop x, StreamClose x])"

definition release_streams :: "client \<Rightarrow> effect list" where
  "release_streams c = release_stream (in_stream c) @ release_stream (out_stream c)"

definition send_session_update :: "exn option \<Rightarrow> client \<Rightarrow> effect list" where
  "send_session_update r c =
     WsSend (SessionUpdate (model c) (instructions c) (voice c)
               (vad_threshold c) (vad_silence_ms c))
     # (case r of
          None \<Rightarrow> notify_status c (SessionUpdateSent (vad_threshold c) (vad_silence_ms c))
        | Some e \<Rightarrow> [])"

text \<open>The \<^verbatim>\<open>finally\<close> block of lines 453 to 488.\<close>

definition teardown :: "client \<Rightarrow> client \<times> effect list" where
  "teardown c =
     (let c1 = c\<lparr>current_ws := None, connected := False\<rparr>
      in (c1\<lparr>in_stream := None, out_stream := None\<rparr>,
          (if on_ws_state c1 then [WsState False] else [])
          @ release_streams c1
          @ notify_status c1 AudioStreamsClosed))"

text \<open>The client as the body of the \<^verbatim>\<open>async with\<close> block finds it (lines 440 and 441).\<close>

definition connected_client :: "client \<Rightarrow> client" where
  "connected_client c = c\<lparr>current_ws := Some WebSocket, connected := True\<rparr>"

text \<open>
  The body of the \<^verbatim>\<open>async with\<close> block: the client at its end, its effects, and the
  exception that leaves it, if any.
\<close>

definition session_body :: "session_env \<Rightarrow> client \<Rightarrow> client \<times> effect list \<times> exn option" where
  "session_body env c =
     (let c1 = connected_client c;
          hello = (if on_ws_state c1 then [WsState True] else [])
                  @ notify_status c1 ConnectedNote
                  @ send_session_update (update_result env) c1
      in case update_result env of
           Some e \<Rightarrow> (c1, hello, Some e)
         | None \<Rightarrow> (case pipelines env c1 of (c2, r) \<Rightarrow> (c2, hello @ [Gather], r)))"

text \<open>
  The result is the client after the call, the effects in order, and the exception the
  call raises (\<open>None\<close> when it returns).
\<close>

definition run_session :: "session_env \<Rightarrow> client \<Rightarrow> client \<times> effect list \<times> exn option" where
  "run_session env c =
     (if stop_flag c then (c, [], None)
      else
        (let greeting = notify_status c (Connecting (model c));
             c1 = session_reset c
         in case open_audio (audio_open_result env) c1 of
              (c2, opened, Some e) \<Rightarrow>
                (c2\<lparr>in_stream := None, out_stream := None\<rparr>,
                 greeting @ opened @ notify_error c2 (FailedToOpenAudio e)
                 @ release_streams c2 @ notify_status c2 AudioClosedInitError,
                 None)
            | (c2, opened, None) \<Rightarrow>
                (case connect_result env of
                   Some e \<Rightarrow>
                     (case teardown c2 of
                        (c3, closing) \<Rightarrow> (c3, greeting @ opened @ WsConnect # closing, Some e))
                 | None \<Rightarrow>
                     (case session_body env c2 of
                        (c3, body, r) \<Rightarrow>
                          (case teardown c3 of
                             (c4, closing) \<Rightarrow>
                               (c4, greeting @ opened @ WsConnect # body @ WsClose # closing,
                                r))))))"

subsection \<open>The reconnection loop: \_reconnect\_loop\<close>





subsection \<open>start\<close>

text \<open>
  The threads of the process are the list of their liveness flags; a thread's
  identifier is its index.  \<^verbatim>\<open>Thread(...).start()\<close> appends a live thread.
\<close>

definition is_alive :: "bool list \<Rightarrow> nat \<Rightarrow> bool" where
  "is_alive threads t = (t < length threads \<and> threads ! t)"

definition start :: "client \<times> bool list \<Rightarrow> client \<times> bool list" where
  "start p =
     (case p of
        (c, threads) \<Rightarrow>
          (case thread c of
             None \<Rightarrow> (c\<lparr>stop_flag := False, thread := Some (length threads)\<rparr>, threads @ [True])
           | Some t \<Rightarrow>
               if is_alive threads t then (c, threads)
               else (c\<lparr>stop_flag := False, thread := Some (length threads)\<rparr>,
                     threads @ [True])))"

definition alive_count :: "bool list \<Rightarrow> nat" where
  "alive_count threads = length (filter (\<lambda>b. b) threads)"

subsection \<open>Auxiliary notions for the theorems\<close>

text \<open>Whether what \<^verbatim>\<open>ws.recv\<close> returned is an audio chunk (\<^verbatim>\<open>response.audio.delta\<close>).\<close>

fun is_audio_chunk :: "exn + event \<Rightarrow> bool" where
  "is_audio_chunk (Inr (ResponseAudioDelta d)) = True"
| "is_audio_chunk m = False"

text \<open>
  The client as an iteration of the sender reads it, after the control thread has
  written the attributes it owns: the mic flag, the stop flag and the input stream
  (\<^verbatim>\<open>toggle_mic\<close>, \<^verbatim>\<open>stop\<close>).
\<close>

definition at_sender :: "client \<Rightarrow> bool \<Rightarrow> bool \<Rightarrow> stream option \<Rightarrow> client" where
  "at_sender c mic stop ins = c\<lparr>mic_enabled := mic, stop_flag := stop, in_stream := ins\<rparr>"

text \<open>Concrete environments: a frame read at a given time, an event received at a given time.\<close>

definition mic_frame :: "real \<Rightarrow> bytes \<Rightarrow> sender_env" where
  "mic_frame now frame =
     \<lparr> mic_read = Inr frame, stop_on_read_error = False, monotonic = now,
       ws_send = None, stop_on_send_error = False \<rparr>"

definition heard :: "real \<Rightarrow> event \<Rightarrow> receiver_env" where
  "heard now ev =
     \<lparr> ws_recv = Inr ev, stop_on_recv_error = False, b64decode = (\<lambda>s. Some []),
       clock = now, write_fails = False, stop_on_write_error = False,
       rms_level = (\<lambda>raw. None) \<rparr>"

text \<open>The window's client in the middle of a session.\<close>

definition streaming_client :: client where
  "streaming_client =
     window_client
       \<lparr> loop := True, connected := True, in_stream := Some RawInputStream,
         out_stream := Some RawOutputStream, current_ws := Some WebSocket \<rparr>"

text \<open>
  \<open>occurs_before a b tr\<close>: both effects occur in the trace, and the first occurrence of
  \<open>a\<close> comes before the first occurrence of \<open>b\<close>.
\<close>

fun occurs_before :: "effect \<Rightarrow> effect \<Rightarrow> effect list \<Rightarrow> bool" where
  "occurs_before a b [] = False"
| "occurs_before a b (x # xs) =
     (if x = b then False else if x = a then b \<in> set xs else occurs_before a b xs)"

text \<open>
  Of a session whose streams and connection open: the client at the end of the body of
  the \<^verbatim>\<open>async with\<close> block, and the effects up to that point.
\<close>

definition body_end :: "session_env \<Rightarrow> client \<Rightarrow> client" where
  "body_end env c = fst (session_body env (fst (open_audio AudioOpened (session_reset c))))"

definition session_entry :: "session_env \<Rightarrow> client \<Rightarrow> effect list" where
  "session_entry env c =
     notify_status c (Connecting (model c))
     @ fst (snd (open_audio AudioOpened (session_reset c)))
     @ WsConnect
     # fst (snd (session_body env (fst (open_audio AudioOpened (session_reset c)))))"

text \<open>A session in which nothing fails and the pipelines end without an exception.\<close>

definition plain_session :: session_env where
  "plain_session =
     \<lparr> audio_open_result = AudioOpened, connect_result = None, update_result = None,
       pipelines = (\<lambda>c. (c, None)) \<rparr>"







section \<open>Theorems\<close>

subsection \<open>C4: clamping of the VAD parameters\<close>

text \<open>
  C4.  After \<^verbatim>\<open>set_vad_params\<close>, a supplied threshold is stored clamped into the interval
  from 0 to 1 and a supplied silence window is stored clamped to at least 100; an
  argument that is not supplied leaves its field as it was.  Supplying 2.5 stores 1,
  supplying 50 stores 100.
\<close>

theorem set_vad_params_clamps:
  "vad_threshold (fst (set_vad_params (Some t) s c)) = clamp_unit t
   \<and> vad_silence_ms (fst (set_vad_params th (Some n) c)) = at_least_100 n
   \<and> vad_threshold (fst (set_vad_params None s c)) = vad_threshold c
   \<and> vad_silence_ms (fst (set_vad_params th None c)) = vad_silence_ms c
   \<and> vad_threshold (fst (set_vad_params (Some (25 / 10)) s c)) = 1
   \<and> vad_silence_ms (fst (set_vad_params th (Some 50) c)) = 100"
  by (cases s; cases th)
     (simp_all add: set_vad_params_def clamp_unit_def at_least_100_def Let_def)

subsection \<open>Facts about the two pipelines\<close>

lemma appended_append: "appended (xs @ ys) = appended xs @ appended ys"
  by (induction xs rule: appended.induct) simp_all

lemma sender_iteration_speaking:
  "assistant_speaking c \<Longrightarrow> appended (snd (sender_iteration c env)) = []"
  by (simp add: sender_iteration_def notify_error_def split: sum.splits option.splits)

lemma sender_loop_speaking:
  "list_all (\<lambda>p. assistant_speaking (fst p)) script \<Longrightarrow> appended (snd (sender_loop script)) = []"
proof (induction script)
  case Nil
  then show ?case by simp
next
  case (Cons p script)
  obtain c env where p: "p = (c, env)" by (cases p)
  from Cons.prems p have sp: "assistant_speaking c" by simp
  from Cons have ih: "appended (snd (sender_loop script)) = []" by simp
  from sender_iteration_speaking [OF sp, of env]
  have it: "appended (snd (sender_iteration c env)) = []" .
  show ?case
    using ih it unfolding p
    by (cases "sender_iteration c env"; cases "sender_loop script")
       (auto simp: appended_append split: loop_ctl.splits)
qed

lemma sender_sends:
  assumes "\<not> stop_flag c" "in_stream c \<noteq> None" "mic_read senv = Inr frame"
      and "mic_enabled c" "\<not> assistant_speaking c"
      and "\<not> (0 < last_assistant_audio_time c
               \<and> monotonic senv - last_assistant_audio_time c < assistant_cooldown_sec c)"
  shows "appended (snd (sender_iteration c senv)) = [frame]"
  using assms
  by (auto simp: sender_iteration_def notify_error_def split: option.splits)

lemma sender_cooldown:
  assumes "0 < last_assistant_audio_time c"
      and "monotonic senv - last_assistant_audio_time c < assistant_cooldown_sec c"
  shows "appended (snd (sender_iteration c senv)) = []"
  using assms
  by (auto simp: sender_iteration_def notify_error_def split: sum.splits option.splits)

lemma handle_event_cooldown:
  "handle_event c env ev = (ctl, c', es) \<Longrightarrow> assistant_cooldown_sec c' = assistant_cooldown_sec c"
  by (cases ev) (auto simp: Let_def split: if_splits option.splits)

lemma handle_event_last_kept:
  "handle_event c env ev = (ctl, c', es) \<Longrightarrow> \<not> is_audio_chunk (Inr ev)
   \<Longrightarrow> last_assistant_audio_time c' = last_assistant_audio_time c"
  by (cases ev) (auto simp: Let_def split: if_splits option.splits)

lemma handle_event_last_ge:
  "handle_event c env ev = (ctl, c', es) \<Longrightarrow> t \<le> last_assistant_audio_time c \<Longrightarrow> t \<le> clock env
   \<Longrightarrow> t \<le> last_assistant_audio_time c'"
  by (cases ev) (auto simp: Let_def split: if_splits option.splits)

lemma receiver_iteration_cases:
  assumes "receiver_iteration c env = (ctl, c', es)"
  shows "c' = c \<or> (\<exists>ev. ws_recv env = Inr ev \<and> handle_event c env ev = (ctl, c', es))"
  using assms by (auto simp: receiver_iteration_def split: if_splits sum.splits)

lemma receiver_iteration_cooldown:
  "receiver_iteration c env = (ctl, c', es) \<Longrightarrow> assistant_cooldown_sec c' = assistant_cooldown_sec c"
  using receiver_iteration_cases [of c env ctl c' es] handle_event_cooldown [of c env _ ctl c' es]
  by auto

lemma receiver_iteration_last_kept:
  "receiver_iteration c env = (ctl, c', es) \<Longrightarrow> \<not> is_audio_chunk (ws_recv env)
   \<Longrightarrow> last_assistant_audio_time c' = last_assistant_audio_time c"
  using receiver_iteration_cases [of c env ctl c' es] handle_event_last_kept [of c env _ ctl c' es]
  by auto

lemma receiver_iteration_last_ge:
  "receiver_iteration c env = (ctl, c', es) \<Longrightarrow> t \<le> last_assistant_audio_time c \<Longrightarrow> t \<le> clock env
   \<Longrightarrow> t \<le> last_assistant_audio_time c'"
  using receiver_iteration_cases [of c env ctl c' es] handle_event_last_ge [of c env _ ctl c' es t]
  by auto

text \<open>
  What every iteration keeps, the loop keeps: \<open>P\<close> restricts the environments of the
  script, \<open>I\<close> is the invariant.
\<close>

lemma receiver_loop_invariant:
  assumes step: "\<And>c env ctl c' es.
                   P env \<Longrightarrow> I c \<Longrightarrow> receiver_iteration c env = (ctl, c', es) \<Longrightarrow> I c'"
  shows "list_all P envs \<Longrightarrow> I c \<Longrightarrow> receiver_loop c envs = (ctl, c', es) \<Longrightarrow> I c'"
proof (induction envs arbitrary: c ctl es)
  case Nil
  then show ?case by simp
next
  case (Cons env envs)
  obtain k c1 es1 where it: "receiver_iteration c env = (k, c1, es1)"
    using prod_cases3 by blast
  from Cons.prems(1) have "P env" and rest: "list_all P envs" by simp_all
  from step [OF \<open>P env\<close> Cons.prems(2) it] have i1: "I c1" .
  show ?case
  proof (cases "k = Continue")
    case True
    obtain k2 c2 es2 where lp: "receiver_loop c1 envs = (k2, c2, es2)"
      using prod_cases3 by blast
    have "receiver_loop c (env # envs) = (k2, c2, es1 @ es2)"
      by (simp add: it True lp)
    with Cons.prems(3) have "c' = c2" by simp
    with lp have "receiver_loop c1 envs = (k2, c', es2)" by simp
    then show ?thesis by (rule Cons.IH [OF rest i1])
  next
    case False
    have "receiver_loop c (env # envs) = (k, c1, es1)"
      using False by (cases k) (simp_all add: it)
    with Cons.prems(3) have "c' = c1" by simp
    with i1 show ?thesis by simp
  qed
qed

lemma receiver_loop_cooldown:
  assumes "receiver_loop c envs = (ctl, c', es)"
  shows "assistant_cooldown_sec c' = assistant_cooldown_sec c"
proof (rule receiver_loop_invariant
    [where P = "\<lambda>e. True" and I = "\<lambda>x. assistant_cooldown_sec x = assistant_cooldown_sec c",
     OF _ _ _ assms])
  fix x e k x' xs
  assume "assistant_cooldown_sec x = assistant_cooldown_sec c"
    and "receiver_iteration x e = (k, x', xs)"
  then show "assistant_cooldown_sec x' = assistant_cooldown_sec c"
    using receiver_iteration_cooldown [of x e k x' xs] by simp
qed (simp_all add: list_all_iff)

lemma receiver_loop_last_kept:
  assumes quiet: "list_all (\<lambda>e. \<not> is_audio_chunk (ws_recv e)) envs"
      and run: "receiver_loop c envs = (ctl, c', es)"
  shows "last_assistant_audio_time c' = last_assistant_audio_time c"
proof (rule receiver_loop_invariant
    [where I = "\<lambda>x. last_assistant_audio_time x = last_assistant_audio_time c",
     OF _ quiet _ run])
  fix x e k x' xs
  assume "\<not> is_audio_chunk (ws_recv e)"
    and "last_assistant_audio_time x = last_assistant_audio_time c"
    and "receiver_iteration x e = (k, x', xs)"
  then show "last_assistant_audio_time x' = last_assistant_audio_time c"
    using receiver_iteration_last_kept [of x e k x' xs] by simp
qed simp

lemma receiver_loop_last_ge:
  assumes later: "list_all (\<lambda>e. t \<le> clock e) envs"
      and run: "receiver_loop c envs = (ctl, c', es)"
      and start: "t \<le> last_assistant_audio_time c"
  shows "t \<le> last_assistant_audio_time c'"
proof (rule receiver_loop_invariant
    [where I = "\<lambda>x. t \<le> last_assistant_audio_time x", OF _ later start run])
  fix x e k x' xs
  assume "t \<le> clock e" and "t \<le> last_assistant_audio_time x"
    and "receiver_iteration x e = (k, x', xs)"
  then show "t \<le> last_assistant_audio_time x'"
    using receiver_iteration_last_ge [of x e k x' xs t] by simp
qed

subsection \<open>C1: no microphone audio while the assistant speaks\<close>

text \<open>
  C1.  In an iteration of \<^verbatim>\<open>_audio_sender\<close> that finds \<^verbatim>\<open>_assistant_speaking\<close> set, no
  \<^verbatim>\<open>input_audio_buffer.append\<close> event is sent, whatever the mic flag (and every other
  attribute and result) is; hence a run of the sender in which every iteration finds
  the flag set sends no such event at all.
\<close>

theorem speaking_suppresses_append:
  "(assistant_speaking c \<longrightarrow> appended (snd (sender_iteration c env)) = [])
   \<and> (list_all (\<lambda>p. assistant_speaking (fst p)) script
        \<longrightarrow> appended (snd (audio_sender c0 script)) = [])"
proof (intro conjI impI)
  assume "assistant_speaking c"
  then show "appended (snd (sender_iteration c env)) = []"
    by (rule sender_iteration_speaking)
next
  assume "list_all (\<lambda>p. assistant_speaking (fst p)) script"
  then have "appended (snd (sender_loop script)) = []"
    by (rule sender_loop_speaking)
  then show "appended (snd (audio_sender c0 script)) = []"
    by (cases "sender_loop script")
       (simp add: audio_sender_def notify_status_def appended_append)
qed

text \<open>
  At the window's client in a session, with the mic enabled and a frame read: the frame
  is sent when the flag is clear and is not sent when it is set.
\<close>

theorem speaking_suppresses_append_witness:
  "assistant_speaking (streaming_client\<lparr>assistant_speaking := True\<rparr>)
   \<and> mic_enabled (streaming_client\<lparr>assistant_speaking := True\<rparr>)
   \<and> appended (snd (sender_iteration (streaming_client\<lparr>assistant_speaking := True\<rparr>)
                      (mic_frame 5 [1, 2]))) = []
   \<and> appended (snd (audio_sender streaming_client
                      [(streaming_client\<lparr>assistant_speaking := True\<rparr>, mic_frame 5 [1, 2]),
                       (streaming_client\<lparr>assistant_speaking := True\<rparr>, mic_frame 6 [3, 4])])) = []
   \<and> appended (snd (sender_iteration streaming_client (mic_frame 5 [1, 2]))) = [[1, 2]]"
  using speaking_suppresses_append
    [of "streaming_client\<lparr>assistant_speaking := True\<rparr>" "mic_frame 5 [1, 2]"
        "[(streaming_client\<lparr>assistant_speaking := True\<rparr>, mic_frame 5 [1, 2]),
          (streaming_client\<lparr>assistant_speaking := True\<rparr>, mic_frame 6 [3, 4])]"
        streaming_client]
  by (simp add: streaming_client_def window_client_def new_client_def mic_frame_def
        sender_iteration_def)

subsection \<open>C10: no cooldown before the first audio chunk\<close>



subsection \<open>C2: the cooldown after an audio chunk\<close>

text \<open>
  C2.  Let the receiver process an audio chunk with the speaker enabled (a non-empty
  payload that decodes), at clock reading \<open>t\<close>, and then any further events; let the
  cooldown be 0.8 s.  The chunk records \<open>t\<close> as the last-assistant-audio time.  A clock
  reading of \<^verbatim>\<open>time.monotonic()\<close> is positive and never below an earlier one; then an
  iteration of the sender less than 0.8 s after \<open>t\<close> sends nothing, whatever the mic
  flag, the stop flag and the input stream are.  When no further audio chunk has come,
  the assistant-speaking flag is clear again, the mic is enabled and at least 0.8 s have
  passed since \<open>t\<close>, the frame read is sent.
\<close>

theorem cooldown_after_audio_chunk:
  assumes chunk: "handle_event c env (ResponseAudioDelta (Some b64)) = (ctl, c1, es)"
      and sp: "speaker_enabled c" and ne: "b64 \<noteq> []" and dec: "b64decode env b64 = Some raw"
      and pos: "0 < clock env"
      and cd: "assistant_cooldown_sec c = 8 / 10"
      and later: "receiver_loop c1 envs = (ctl', c2, es')"
  shows "last_assistant_audio_time c1 = clock env
         \<and> (list_all (\<lambda>e. clock env \<le> clock e) envs \<and> monotonic senv - clock env < 8 / 10
              \<longrightarrow> appended (snd (sender_iteration (at_sender c2 mic stop ins) senv)) = [])
         \<and> (list_all (\<lambda>e. \<not> is_audio_chunk (ws_recv e)) envs \<and> \<not> assistant_speaking c2
              \<and> 8 / 10 \<le> monotonic senv - clock env \<and> mic_read senv = Inr frame
              \<longrightarrow> appended (snd (sender_iteration (at_sender c2 True False (Some RawInputStream)) senv))
                    = [frame])"
proof (intro conjI impI)
  have c1: "c1 = c\<lparr>assistant_speaking := True, last_assistant_audio_time := clock env\<rparr>"
    using chunk sp ne dec by (auto simp: py_or_def Let_def split: if_splits)
  then show l1: "last_assistant_audio_time c1 = clock env" by simp
  have cd2: "assistant_cooldown_sec c2 = 8 / 10"
    using receiver_loop_cooldown [OF later] c1 cd by simp
  {
    assume "list_all (\<lambda>e. clock env \<le> clock e) envs \<and> monotonic senv - clock env < 8 / 10"
    then have mono: "list_all (\<lambda>e. clock env \<le> clock e) envs"
      and early: "monotonic senv - clock env < 8 / 10" by simp_all
    have ge: "clock env \<le> last_assistant_audio_time c2"
      using receiver_loop_last_ge [OF mono later] l1 by simp
    show "appended (snd (sender_iteration (at_sender c2 mic stop ins) senv)) = []"
      by (rule sender_cooldown) (use ge pos early cd2 in \<open>auto simp: at_sender_def\<close>)
  }
  {
    assume "list_all (\<lambda>e. \<not> is_audio_chunk (ws_recv e)) envs \<and> \<not> assistant_speaking c2
            \<and> 8 / 10 \<le> monotonic senv - clock env \<and> mic_read senv = Inr frame"
    then have quiet: "list_all (\<lambda>e. \<not> is_audio_chunk (ws_recv e)) envs"
      and ns: "\<not> assistant_speaking c2"
      and late: "8 / 10 \<le> monotonic senv - clock env"
      and read: "mic_read senv = Inr frame" by simp_all
    have l2: "last_assistant_audio_time c2 = clock env"
      using receiver_loop_last_kept [OF quiet later] l1 by simp
    show "appended (snd (sender_iteration (at_sender c2 True False (Some RawInputStream)) senv))
          = [frame]"
      by (rule sender_sends) (use l2 ns late read cd2 in \<open>auto simp: at_sender_def\<close>)
  }
qed

text \<open>
  The window's client in a session: a chunk at 10 s, the end of the audio at 10.2 s.
  A frame read at 10.5 s is not sent, a frame read at 11 s is.
\<close>

theorem cooldown_after_audio_chunk_witness:
  "speaker_enabled streaming_client
   \<and> 0 < clock (heard 10 (ResponseAudioDelta (Some ''AAAA'')))
   \<and> assistant_cooldown_sec streaming_client = 8 / 10
   \<and> appended (snd (sender_iteration
        (at_sender
           (fst (snd (receiver_loop
              (fst (snd (handle_event streaming_client
                           (heard 10 (ResponseAudioDelta (Some ''AAAA'')))
                           (ResponseAudioDelta (Some ''AAAA'')))))
              [heard (102 / 10) ResponseAudioDone])))
           True False (Some RawInputStream))
        (mic_frame (105 / 10) [1, 2]))) = []
   \<and> appended (snd (sender_iteration
        (at_sender
           (fst (snd (receiver_loop
              (fst (snd (handle_event streaming_client
                           (heard 10 (ResponseAudioDelta (Some ''AAAA'')))
                           (ResponseAudioDelta (Some ''AAAA'')))))
              [heard (102 / 10) ResponseAudioDone])))
           True False (Some RawInputStream))
        (mic_frame 11 [1, 2]))) = [[1, 2]]"
proof -
  let ?env = "heard 10 (ResponseAudioDelta (Some ''AAAA''))"
  let ?h = "handle_event streaming_client ?env (ResponseAudioDelta (Some ''AAAA''))"
  let ?envs = "[heard (102 / 10) ResponseAudioDone]"
  let ?r = "receiver_loop (fst (snd ?h)) ?envs"
  have chunk: "?h = (fst ?h, fst (snd ?h), snd (snd ?h))" by simp
  have later: "?r = (fst ?r, fst (snd ?r), snd (snd ?r))" by simp
  have sp: "speaker_enabled streaming_client"
    by (simp add: streaming_client_def window_client_def new_client_def)
  have ne: "''AAAA'' \<noteq> []" by simp
  have dec: "b64decode ?env ''AAAA'' = Some []" by (simp add: heard_def)
  have pos: "0 < clock ?env" by (simp add: heard_def)
  have cd: "assistant_cooldown_sec streaming_client = 8 / 10"
    by (simp add: streaming_client_def window_client_def new_client_def)
  have mono: "list_all (\<lambda>e. clock ?env \<le> clock e) ?envs" by (simp add: heard_def)
  have quiet: "list_all (\<lambda>e. \<not> is_audio_chunk (ws_recv e)) ?envs" by (simp add: heard_def)
  have ns: "\<not> assistant_speaking (fst (snd ?r))"
    by (simp add: heard_def receiver_iteration_def streaming_client_def window_client_def
          new_client_def py_or_def Let_def)
  have early: "monotonic (mic_frame (105 / 10) [1, 2]) - clock ?env < 8 / 10"
    by (simp add: heard_def mic_frame_def)
  have late: "8 / 10 \<le> monotonic (mic_frame 11 [1, 2]) - clock ?env"
    by (simp add: heard_def mic_frame_def)
  have read: "mic_read (mic_frame 11 [1, 2]) = Inr [1, 2]" by (simp add: mic_frame_def)
  from cooldown_after_audio_chunk
         [OF chunk sp ne dec pos cd later, of "mic_frame (105 / 10) [1, 2]" True False
            "Some RawInputStream"]
       mono early
  have a: "appended (snd (sender_iteration
             (at_sender (fst (snd ?r)) True False (Some RawInputStream))
             (mic_frame (105 / 10) [1, 2]))) = []"
    by blast
  from cooldown_after_audio_chunk
         [OF chunk sp ne dec pos cd later, of "mic_frame 11 [1, 2]" _ _ _ "[1, 2]"]
       quiet ns late read
  have b: "appended (snd (sender_iteration
             (at_sender (fst (snd ?r)) True False (Some RawInputStream))
             (mic_frame 11 [1, 2]))) = [[1, 2]]"
    by blast
  from sp pos cd a b show ?thesis by simp
qed

subsection \<open>C7: error events\<close>

lemma active_response_errors_ignored:
  "\<not> stop_flag c
   \<Longrightarrow> list_all (\<lambda>e. ws_recv e
                      = Inr (ErrorEvent (Some ''conversation_already_has_active_response''))) envs
   \<Longrightarrow> receiver_loop c envs = (Continue, c, [])"
  by (induction envs) (simp_all add: receiver_iteration_def)

text \<open>
  C7.  While stop is not requested, an inbound \<^verbatim>\<open>error\<close> event with the code
  \<^verbatim>\<open>conversation_already_has_active_response\<close> yields no effect at all and leaves the
  client unchanged, and so does any number of such events in a row.  An \<^verbatim>\<open>error\<close> event
  with any other code, or with none, yields exactly one server-error notification (to
  the \<^verbatim>\<open>on_server_error\<close> callback, which the window assigns) and nothing else.
\<close>

theorem error_event_notifications:
  assumes "\<not> stop_flag c"
  shows "(ws_recv env = Inr (ErrorEvent (Some ''conversation_already_has_active_response''))
            \<longrightarrow> receiver_iteration c env = (Continue, c, []))
         \<and> (list_all (\<lambda>e. ws_recv e
                  = Inr (ErrorEvent (Some ''conversation_already_has_active_response''))) envs
            \<longrightarrow> receiver_loop c envs = (Continue, c, [])
                \<and> server_errors (snd (snd (audio_receiver c envs))) = [])
         \<and> (ws_recv env = Inr (ErrorEvent code)
            \<and> code \<noteq> Some ''conversation_already_has_active_response''
            \<and> on_server_error c
            \<longrightarrow> receiver_iteration c env = (Continue, c, [ServerError (ServerEvent code)])
                \<and> server_errors (snd (snd (receiver_iteration c env))) = [ServerEvent code])"
proof (intro conjI impI)
  assume "ws_recv env = Inr (ErrorEvent (Some ''conversation_already_has_active_response''))"
  with assms show "receiver_iteration c env = (Continue, c, [])"
    by (simp add: receiver_iteration_def)
next
  assume all: "list_all (\<lambda>e. ws_recv e
                  = Inr (ErrorEvent (Some ''conversation_already_has_active_response''))) envs"
  from active_response_errors_ignored [OF assms all]
  show "receiver_loop c envs = (Continue, c, [])" .
  then show "server_errors (snd (snd (audio_receiver c envs))) = []"
    by (simp add: audio_receiver_def notify_status_def)
next
  assume other: "ws_recv env = Inr (ErrorEvent code)
                 \<and> code \<noteq> Some ''conversation_already_has_active_response''
                 \<and> on_server_error c"
  with assms show it: "receiver_iteration c env = (Continue, c, [ServerError (ServerEvent code)])"
    by (simp add: receiver_iteration_def notify_error_def)
  then show "server_errors (snd (snd (receiver_iteration c env))) = [ServerEvent code]"
    by simp
qed

text \<open>
  Three such events in a row at the window's client, and one event with another code.
\<close>

theorem error_event_notifications_witness:
  "\<not> stop_flag streaming_client
   \<and> on_server_error streaming_client
   \<and> receiver_loop streaming_client
        [heard 1 (ErrorEvent (Some ''conversation_already_has_active_response'')),
         heard 2 (ErrorEvent (Some ''conversation_already_has_active_response'')),
         heard 3 (ErrorEvent (Some ''conversation_already_has_active_response''))]
      = (Continue, streaming_client, [])
   \<and> server_errors (snd (snd (audio_receiver streaming_client
        [heard 1 (ErrorEvent (Some ''conversation_already_has_active_response'')),
         heard 2 (ErrorEvent (Some ''conversation_already_has_active_response'')),
         heard 3 (ErrorEvent (Some ''conversation_already_has_active_response''))]))) = []
   \<and> server_errors (snd (snd (receiver_iteration streaming_client
        (heard 4 (ErrorEvent (Some ''rate_limit_exceeded''))))))
      = [ServerEvent (Some ''rate_limit_exceeded'')]"
proof -
  have ns: "\<not> stop_flag streaming_client" and cb: "on_server_error streaming_client"
    by (simp_all add: streaming_client_def window_client_def new_client_def)
  have all: "list_all (\<lambda>e. ws_recv e
                = Inr (ErrorEvent (Some ''conversation_already_has_active_response'')))
              [heard 1 (ErrorEvent (Some ''conversation_already_has_active_response'')),
               heard 2 (ErrorEvent (Some ''conversation_already_has_active_response'')),
               heard 3 (ErrorEvent (Some ''conversation_already_has_active_response''))]"
    by (simp add: heard_def)
  have other: "ws_recv (heard 4 (ErrorEvent (Some ''rate_limit_exceeded'')))
               = Inr (ErrorEvent (Some ''rate_limit_exceeded''))
               \<and> Some ''rate_limit_exceeded'' \<noteq> Some ''conversation_already_has_active_response''
               \<and> on_server_error streaming_client"
    using cb by (simp add: heard_def)
  from error_event_notifications
         [OF ns,
          of "heard 4 (ErrorEvent (Some ''rate_limit_exceeded''))"
             "[heard 1 (ErrorEvent (Some ''conversation_already_has_active_response'')),
               heard 2 (ErrorEvent (Some ''conversation_already_has_active_response'')),
               heard 3 (ErrorEvent (Some ''conversation_already_has_active_response''))]"
             "Some ''rate_limit_exceeded''"]
       all other ns cb
  show ?thesis by blast
qed

subsection \<open>C5: text deltas and their done event\<close>

lemma text_deltas_accumulate:
  "\<not> stop_flag c
   \<Longrightarrow> map ws_recv envs = map (\<lambda>f. Inr (ResponseTextDelta (Some f))) frags
   \<Longrightarrow> receiver_loop c (envs @ rest)
       = receiver_loop (c\<lparr>assistant_text_buffer := assistant_text_buffer c @ concat frags\<rparr>) rest"
proof (induction frags arbitrary: c envs)
  case Nil
  then show ?case by simp
next
  case (Cons f frags)
  from Cons.prems(2) obtain e envs' where envs: "envs = e # envs'"
    and e: "ws_recv e = Inr (ResponseTextDelta (Some f))"
    and rest: "map ws_recv envs' = map (\<lambda>f. Inr (ResponseTextDelta (Some f))) frags"
    by (cases envs) auto
  let ?c1 = "c\<lparr>assistant_text_buffer := assistant_text_buffer c @ f\<rparr>"
  have it: "receiver_iteration c e = (Continue, ?c1, [])"
    using Cons.prems(1) e by (simp add: receiver_iteration_def py_or_def)
  have ns: "\<not> stop_flag ?c1" using Cons.prems(1) by simp
  have "receiver_loop c (envs @ rest) = receiver_loop ?c1 (envs' @ rest)"
    by (simp add: envs it split: prod.splits)
  also have "\<dots> = receiver_loop
                    (?c1\<lparr>assistant_text_buffer := assistant_text_buffer ?c1 @ concat frags\<rparr>) rest"
    by (rule Cons.IH [OF ns rest])
  finally show ?case by simp
qed

text \<open>
  C5, as amended.  Let stop not be requested, the text buffer be empty and the
  \<^verbatim>\<open>on_event_text\<close> callback be assigned.  After \<^verbatim>\<open>response.text.delta\<close> events with the
  fragments \<open>frags\<close> and one \<^verbatim>\<open>response.text.done\<close> event without a \<^verbatim>\<open>text\<close> field, the
  receiver has emitted exactly one completed-message notification, with the fragments
  concatenated in order, when that text is not empty, and nothing when it is empty; it
  has emitted nothing else, it is still running, and both buffers are empty.
\<close>

theorem text_done_flushes_once:
  assumes ns: "\<not> stop_flag c"
      and fresh: "assistant_text_buffer c = []"
      and cb: "on_event_text c"
      and evs: "map ws_recv envs
                = map (\<lambda>f. Inr (ResponseTextDelta (Some f))) frags @ [Inr (ResponseTextDone None)]"
  shows "fst (receiver_loop c envs) = Continue
         \<and> snd (snd (receiver_loop c envs))
             = (if concat frags = [] then [] else [EventText (concat frags)])
         \<and> event_texts (snd (snd (receiver_loop c envs)))
             = (if concat frags = [] then [] else [concat frags])
         \<and> assistant_text_buffer (fst (snd (receiver_loop c envs))) = []
         \<and> assistant_audio_buffer (fst (snd (receiver_loop c envs))) = []"
proof -
  from evs obtain ds e where envs: "envs = ds @ [e]"
    and ds: "map ws_recv ds = map (\<lambda>f. Inr (ResponseTextDelta (Some f))) frags"
    and e: "ws_recv e = Inr (ResponseTextDone None)"
    by (auto simp: map_eq_append_conv)
  let ?c1 = "c\<lparr>assistant_text_buffer := assistant_text_buffer c @ concat frags\<rparr>"
  have "receiver_loop c envs = receiver_loop ?c1 [e]"
    unfolding envs by (rule text_deltas_accumulate [OF ns ds])
  also have "\<dots> = (Continue, ?c1\<lparr>assistant_text_buffer := [], assistant_audio_buffer := []\<rparr>,
                   if concat frags = [] then [] else [EventText (concat frags)])"
    using ns fresh cb e by (simp add: receiver_iteration_def py_or_def notify_text_def)
  finally show ?thesis by simp
qed

text \<open>The fragments ``Hel'' and ``lo'' at the window's client give one notification, ``Hello''.\<close>

theorem text_done_flushes_once_witness:
  "\<not> stop_flag streaming_client
   \<and> assistant_text_buffer streaming_client = []
   \<and> on_event_text streaming_client
   \<and> snd (snd (receiver_loop streaming_client
        [heard 1 (ResponseTextDelta (Some ''Hel'')), heard 2 (ResponseTextDelta (Some ''lo'')),
         heard 3 (ResponseTextDone None)])) = [EventText ''Hello'']
   \<and> assistant_text_buffer (fst (snd (receiver_loop streaming_client
        [heard 1 (ResponseTextDelta (Some ''Hel'')), heard 2 (ResponseTextDelta (Some ''lo'')),
         heard 3 (ResponseTextDone None)]))) = []
   \<and> assistant_audio_buffer (fst (snd (receiver_loop streaming_client
        [heard 1 (ResponseTextDelta (Some ''Hel'')), heard 2 (ResponseTextDelta (Some ''lo'')),
         heard 3 (ResponseTextDone None)]))) = []"
proof -
  have ns: "\<not> stop_flag streaming_client"
    and fresh: "assistant_text_buffer streaming_client = []"
    and cb: "on_event_text streaming_client"
    by (simp_all add: streaming_client_def window_client_def new_client_def)
  have evs: "map ws_recv
               [heard 1 (ResponseTextDelta (Some ''Hel'')), heard 2 (ResponseTextDelta (Some ''lo'')),
                heard 3 (ResponseTextDone None)]
             = map (\<lambda>f. Inr (ResponseTextDelta (Some f))) [''Hel'', ''lo'']
               @ [Inr (ResponseTextDone None)]"
    by (simp add: heard_def)
  from text_done_flushes_once [OF ns fresh cb evs] ns fresh cb
  show ?thesis by simp
qed

text \<open>
  The claim as stated promises one notification for every sequence of deltas.  For a
  delta with an empty fragment, and for no delta at all, the done event emits none.
\<close>

theorem text_done_flushes_once_counterexample:
  "event_texts (snd (snd (receiver_loop streaming_client
      [heard 1 (ResponseTextDelta (Some [])), heard 2 (ResponseTextDone None)]))) = []
   \<and> event_texts (snd (snd (receiver_loop streaming_client
      [heard 1 (ResponseTextDone None)]))) = []"
  by (simp add: streaming_client_def window_client_def new_client_def heard_def
        receiver_iteration_def py_or_def notify_text_def)

subsection \<open>C6: the done event of the audio transcript\<close>

text \<open>
  C6, as amended.  When the receiver (stop not requested) processes a
  \<^verbatim>\<open>response.audio_transcript.done\<close> event, the text to flush is the event's \<^verbatim>\<open>transcript\<close>
  field when that is present and not empty, otherwise the audio-transcript buffer.  With
  the text buffer empty and the \<^verbatim>\<open>on_event_text\<close> callback assigned, it emits one
  completed-message notification with that text when the text is not empty, and none
  when it is empty; with the text buffer not empty it emits none.  In every case it emits
  nothing else, both buffers are empty afterwards and the loop goes on.
\<close>

theorem audio_transcript_done_flush:
  assumes ns: "\<not> stop_flag c"
      and ev: "ws_recv env = Inr (ResponseAudioTranscriptDone t)"
  shows "(assistant_text_buffer c = [] \<and> on_event_text c
            \<and> py_or t (assistant_audio_buffer c) \<noteq> []
            \<longrightarrow> snd (snd (receiver_iteration c env))
                  = [EventText (py_or t (assistant_audio_buffer c))])
         \<and> (assistant_text_buffer c = [] \<and> py_or t (assistant_audio_buffer c) = []
            \<longrightarrow> snd (snd (receiver_iteration c env)) = [])
         \<and> (assistant_text_buffer c \<noteq> [] \<longrightarrow> snd (snd (receiver_iteration c env)) = [])
         \<and> (\<forall>s. s \<noteq> [] \<longrightarrow> py_or (Some s) (assistant_audio_buffer c) = s)
         \<and> py_or None (assistant_audio_buffer c) = assistant_audio_buffer c
         \<and> py_or (Some []) (assistant_audio_buffer c) = assistant_audio_buffer c
         \<and> fst (receiver_iteration c env) = Continue
         \<and> assistant_text_buffer (fst (snd (receiver_iteration c env))) = []
         \<and> assistant_audio_buffer (fst (snd (receiver_iteration c env))) = []"
  using ns ev by (simp add: receiver_iteration_def py_or_def notify_text_def)

text \<open>
  At the window's client with ``Salam'' in the audio-transcript buffer: an event without
  a transcript flushes the buffer, an event with the transcript ``Hi'' flushes ``Hi'', and
  with ``x'' in the text buffer nothing is emitted.
\<close>

theorem audio_transcript_done_flush_witness:
  "\<not> stop_flag (streaming_client\<lparr>assistant_audio_buffer := ''Salam''\<rparr>)
   \<and> snd (snd (receiver_iteration (streaming_client\<lparr>assistant_audio_buffer := ''Salam''\<rparr>)
                  (heard 1 (ResponseAudioTranscriptDone None)))) = [EventText ''Salam'']
   \<and> snd (snd (receiver_iteration (streaming_client\<lparr>assistant_audio_buffer := ''Salam''\<rparr>)
                  (heard 1 (ResponseAudioTranscriptDone (Some ''Hi''))))) = [EventText ''Hi'']
   \<and> snd (snd (receiver_iteration
                  (streaming_client\<lparr>assistant_audio_buffer := ''Salam'',
                                    assistant_text_buffer := ''x''\<rparr>)
                  (heard 1 (ResponseAudioTranscriptDone None)))) = []
   \<and> assistant_audio_buffer (fst (snd (receiver_iteration
        (streaming_client\<lparr>assistant_audio_buffer := ''Salam''\<rparr>)
        (heard 1 (ResponseAudioTranscriptDone None))))) = []"
proof -
  let ?c = "streaming_client\<lparr>assistant_audio_buffer := ''Salam''\<rparr>"
  let ?d = "streaming_client\<lparr>assistant_audio_buffer := ''Salam'', assistant_text_buffer := ''x''\<rparr>"
  have ns: "\<not> stop_flag ?c" and nsd: "\<not> stop_flag ?d"
    and fresh: "assistant_text_buffer ?c = []" and cb: "on_event_text ?c"
    and full: "assistant_text_buffer ?d \<noteq> []" and buf: "assistant_audio_buffer ?c = ''Salam''"
    by (simp_all add: streaming_client_def window_client_def new_client_def)
  have ev1: "ws_recv (heard 1 (ResponseAudioTranscriptDone None))
             = Inr (ResponseAudioTranscriptDone None)"
    and ev2: "ws_recv (heard 1 (ResponseAudioTranscriptDone (Some ''Hi'')))
              = Inr (ResponseAudioTranscriptDone (Some ''Hi''))"
    by (simp_all add: heard_def)
  from audio_transcript_done_flush [OF ns ev1] audio_transcript_done_flush [OF ns ev2]
       audio_transcript_done_flush [OF nsd ev1] ns fresh cb full buf
  show ?thesis by (simp add: py_or_def)
qed

text \<open>
  The claim as stated promises a notification whenever the text buffer is empty, and the
  event's transcript whenever the field is present.  With both buffers empty and no
  transcript field nothing is emitted; with an empty transcript field the buffer is
  flushed.
\<close>

theorem audio_transcript_done_flush_counterexample:
  "assistant_text_buffer streaming_client = []
   \<and> event_texts (snd (snd (receiver_iteration streaming_client
        (heard 1 (ResponseAudioTranscriptDone None))))) = []
   \<and> event_texts (snd (snd (receiver_iteration
        (streaming_client\<lparr>assistant_audio_buffer := ''Salam''\<rparr>)
        (heard 1 (ResponseAudioTranscriptDone (Some [])))))) = [''Salam'']"
  by (simp add: streaming_client_def window_client_def new_client_def heard_def
        receiver_iteration_def py_or_def notify_text_def)

subsection \<open>C8: start is idempotent\<close>

lemma run_session_releases:
  "\<not> stop_flag c
   \<Longrightarrow> in_stream (fst (run_session env c)) = None
       \<and> out_stream (fst (run_session env c)) = None
       \<and> current_ws (fst (run_session env c)) = None"
  by (cases "audio_open_result env")
     (simp_all add: run_session_def open_audio_def teardown_def session_reset_def Let_def
        split: prod.splits option.splits)

text \<open>
  C8.  \<^verbatim>\<open>start()\<close> on a client whose thread is alive changes nothing; after any call of
  \<^verbatim>\<open>start()\<close> the client's thread is alive, so a second call right after the first
  changes nothing: it launches no thread, and the number of live threads is the same.
  On a new client the two calls leave exactly one live thread.  That thread runs its
  sessions one after the other, and a session that has run holds no stream and no
  connection when it returns: the one thread holds at most one connection and one pair
  of streams at a time.
\<close>

theorem start_idempotent:
  "(thread c = Some t \<and> is_alive threads t \<longrightarrow> start (c, threads) = (c, threads))
   \<and> (\<exists>t. thread (fst (start p)) = Some t \<and> is_alive (snd (start p)) t)
   \<and> start (start p) = start p
   \<and> length (snd (start (start p))) = length (snd (start p))
   \<and> alive_count (snd (start (start p))) = alive_count (snd (start p))
   \<and> alive_count (snd (start (start (new_client th ms, [])))) = 1
   \<and> (\<not> stop_flag cs
        \<longrightarrow> in_stream (fst (run_session env cs)) = None
            \<and> out_stream (fst (run_session env cs)) = None
            \<and> current_ws (fst (run_session env cs)) = None)"
proof -
  have noop: "thread c = Some t \<and> is_alive threads t \<longrightarrow> start (c, threads) = (c, threads)"
    by (simp add: start_def)
  have alive: "\<exists>t. thread (fst (start p)) = Some t \<and> is_alive (snd (start p)) t"
    by (cases p) (auto simp: start_def is_alive_def nth_append split: option.splits)
  then obtain t where t: "thread (fst (start p)) = Some t" "is_alive (snd (start p)) t"
    by blast
  have idem: "start (start p) = start p"
    using t by (cases "start p") (simp add: start_def)
  have one: "alive_count (snd (start (start (new_client th ms, [])))) = 1"
    by (simp add: start_def new_client_def is_alive_def alive_count_def)
  from noop alive idem one run_session_releases [of cs env] show ?thesis by simp
qed

text \<open>A client whose thread 0 is alive: \<^verbatim>\<open>start()\<close> leaves it and the threads as they are.\<close>

theorem start_idempotent_witness:
  "thread (window_client\<lparr>thread := Some 0\<rparr>) = Some 0
   \<and> is_alive [True] 0
   \<and> start (window_client\<lparr>thread := Some 0\<rparr>, [True])
      = (window_client\<lparr>thread := Some 0\<rparr>, [True])
   \<and> alive_count (snd (start (start (window_client, [])))) = 1
   \<and> \<not> stop_flag window_client
   \<and> in_stream (fst (run_session plain_session window_client)) = None
   \<and> current_ws (fst (run_session plain_session window_client)) = None"
proof -
  have a: "thread (window_client\<lparr>thread := Some 0\<rparr>) = Some 0" by simp
  have b: "is_alive [True] 0" by (simp add: is_alive_def)
  have c: "alive_count (snd (start (start (window_client, [])))) = 1"
    by (simp add: start_def window_client_def new_client_def is_alive_def alive_count_def)
  have ns: "\<not> stop_flag window_client" by (simp add: window_client_def new_client_def)
  from start_idempotent [of "window_client\<lparr>thread := Some 0\<rparr>" 0 "[True]" _ _ _
                            window_client plain_session] a b c ns
  show ?thesis by blast
qed

subsection \<open>C9: the waits of the reconnection loop\<close>












subsection \<open>C3: the order of the teardown of a session\<close>

lemma occurs_before_later:
  "a \<noteq> b \<Longrightarrow> a \<notin> set xs \<Longrightarrow> b \<notin> set xs \<Longrightarrow> b \<in> set ys \<Longrightarrow> occurs_before a b (xs @ a # ys)"
  by (induction xs) auto

lemma session_entry_no_release:
  "StreamStop s \<notin> set (session_entry env c) \<and> StreamClose s \<notin> set (session_entry env c)
   \<and> WsClose \<notin> set (session_entry env c)"
  by (auto simp: session_entry_def session_body_def open_audio_def notify_status_def
        send_session_update_def Let_def split: option.splits prod.splits)

lemma run_session_opened:
  assumes "\<not> stop_flag c" "audio_open_result env = AudioOpened" "connect_result env = None"
  shows "run_session env c
         = (fst (teardown (body_end env c)),
            session_entry env c @ WsClose # snd (teardown (body_end env c)),
            snd (snd (session_body env (fst (open_audio AudioOpened (session_reset c))))))"
  using assms
  by (simp add: run_session_def body_end_def session_entry_def Let_def open_audio_def
        split: prod.splits)

text \<open>
  C3, as amended.  On every exit path of \<^verbatim>\<open>_run_session\<close> in which the connection was
  opened (whether the body of the \<^verbatim>\<open>async with\<close> block ends normally, by an exception, or
  after a stop request), the connection is closed and the audio streams still held are
  stopped and closed, and the close of the connection comes first: the effects are those
  up to the end of the body, in which no stream is stopped or closed, then the close of
  the connection, then the \<^verbatim>\<open>finally\<close> block, which stops and closes each stream still
  held.  Afterwards no stream and no connection is held.
\<close>

theorem session_closes_then_releases:
  assumes ns: "\<not> stop_flag c"
      and au: "audio_open_result env = AudioOpened"
      and co: "connect_result env = None"
  shows "fst (snd (run_session env c))
           = session_entry env c @ WsClose # snd (teardown (body_end env c))
         \<and> (\<forall>s. StreamStop s \<notin> set (session_entry env c)
                 \<and> StreamClose s \<notin> set (session_entry env c))
         \<and> snd (teardown (body_end env c))
           = (if on_ws_state (body_end env c) then [WsState False] else [])
             @ release_stream (in_stream (body_end env c))
             @ release_stream (out_stream (body_end env c))
             @ notify_status (body_end env c) AudioStreamsClosed
         \<and> (\<forall>s. in_stream (body_end env c) = Some s \<or> out_stream (body_end env c) = Some s
                 \<longrightarrow> occurs_before WsClose (StreamStop s) (fst (snd (run_session env c)))
                     \<and> occurs_before WsClose (StreamClose s) (fst (snd (run_session env c))))
         \<and> in_stream (fst (run_session env c)) = None
         \<and> out_stream (fst (run_session env c)) = None
         \<and> current_ws (fst (run_session env c)) = None
         \<and> \<not> connected (fst (run_session env c))"
proof -
  note run = run_session_opened [OF ns au co]
  have tr: "fst (snd (run_session env c))
            = session_entry env c @ WsClose # snd (teardown (body_end env c))"
    unfolding run by simp
  have td: "snd (teardown (body_end env c))
            = (if on_ws_state (body_end env c) then [WsState False] else [])
              @ release_stream (in_stream (body_end env c))
              @ release_stream (out_stream (body_end env c))
              @ notify_status (body_end env c) AudioStreamsClosed"
    by (simp add: teardown_def release_streams_def notify_status_def Let_def)
  have order: "occurs_before WsClose (StreamStop s) (fst (snd (run_session env c)))
               \<and> occurs_before WsClose (StreamClose s) (fst (snd (run_session env c)))"
    if held: "in_stream (body_end env c) = Some s \<or> out_stream (body_end env c) = Some s" for s
  proof -
    from held have "StreamStop s \<in> set (snd (teardown (body_end env c)))"
      and "StreamClose s \<in> set (snd (teardown (body_end env c)))"
      unfolding td by (auto simp: release_stream_def)
    then show ?thesis
      unfolding tr using session_entry_no_release [of s env c]
      by (simp add: occurs_before_later)
  qed
  have fin: "in_stream (fst (run_session env c)) = None
             \<and> out_stream (fst (run_session env c)) = None
             \<and> current_ws (fst (run_session env c)) = None
             \<and> \<not> connected (fst (run_session env c))"
    unfolding run by (simp add: teardown_def Let_def)
  from tr td order fin session_entry_no_release show ?thesis by blast
qed

text \<open>
  The window's client and a session in which nothing fails: the whole trace.  The
  connection is closed before the input stream is stopped.
\<close>

theorem session_closes_then_releases_witness:
  "\<not> stop_flag window_client
   \<and> audio_open_result plain_session = AudioOpened
   \<and> connect_result plain_session = None
   \<and> in_stream (body_end plain_session window_client) = Some RawInputStream
   \<and> occurs_before WsClose (StreamStop RawInputStream)
        (fst (snd (run_session plain_session window_client)))
   \<and> in_stream (fst (run_session plain_session window_client)) = None
   \<and> out_stream (fst (run_session plain_session window_client)) = None"
proof -
  have ns: "\<not> stop_flag window_client" by (simp add: window_client_def new_client_def)
  have au: "audio_open_result plain_session = AudioOpened"
    and co: "connect_result plain_session = None"
    by (simp_all add: plain_session_def)
  have held: "in_stream (body_end plain_session window_client) = Some RawInputStream"
    by (simp add: body_end_def session_body_def plain_session_def open_audio_def
          connected_client_def Let_def)
  from session_closes_then_releases [OF ns au co] ns au co held
  show ?thesis by blast
qed

text \<open>
  The claim as stated puts the release of the audio streams before the close of the
  connection.  In the session in which nothing fails the streams are stopped and closed
  after the connection is closed, not before.
\<close>

theorem session_closes_then_releases_counterexample:
  "fst (snd (run_session plain_session window_client))
     = [Status (Connecting ''gpt-4o-realtime-preview''),
        StreamOpen RawInputStream, StreamOpen RawOutputStream,
        StreamStart RawInputStream, StreamStart RawOutputStream,
        WsConnect, WsState True, Status ConnectedNote,
        WsSend (SessionUpdate ''gpt-4o-realtime-preview''
                  ''You are an intelligent, fast voice assistant named Cuby.'' ''alloy''
                  (95 / 100) 1600),
        Status (SessionUpdateSent (95 / 100) 1600),
        Gather, WsClose, WsState False,
        StreamStop RawInputStream, StreamClose RawInputStream,
        StreamStop RawOutputStream, StreamClose RawOutputStream,
        Status AudioStreamsClosed]
   \<and> \<not> occurs_before (StreamStop RawInputStream) WsClose
          (fst (snd (run_session plain_session window_client)))
   \<and> \<not> occurs_before (StreamClose RawOutputStream) WsClose
          (fst (snd (run_session plain_session window_client)))"
  by (simp add: run_session_def session_body_def teardown_def release_streams_def
        release_stream_def open_audio_def session_reset_def connected_client_def
        send_session_update_def notify_status_def plain_session_def window_client_def
        new_client_def Let_def)

end
